theory Spec2Isabelle
  imports Main "HOL-Library.Word" "HOL-Library.Sublist"
begin

section \<open>Machine types shared by the packages\<close>

text \<open>
  Go's \<open>uint64\<close> and \<open>int64\<close> are 64-bit words. The order \<open>\<le>\<close> on words is the
  unsigned one; \<open>sint\<close> reads a word as two's complement. The conversion
  \<open>uint64(x)\<close> of an \<open>int64\<close> keeps the bits, so it is the identity on the word.
  \<open>*big.Int\<close> is \<open>int\<close>.
\<close>

type_synonym uint64 = "64 word"
type_synonym int64 = "64 word"
type_synonym bytes = "8 word list"
type_synonym address = bytes
type_synonym hash = bytes

text \<open>
  Errors are values: \<open>Err\<close> is an error a collaborator returns, \<open>ErrContext\<close> the
  error of a done context, the others are the errors the settler makes itself (the
  wrapped error, and the nonce that \<open>fmt.Errorf\<close> prints).
\<close>

datatype error =
    Err string
  | ErrContext string
  | ErrTooManyPendingTxns
  | ErrProcessCommitment error "int option"
  | ErrProcessReturn error "int option"
  | ErrMarkInitiated error

section \<open>pkg/node: the lagging L1 client\<close>

text \<open>
  \<open>laggerdL1Client\<close> wraps an L1 client and holds \<open>amount int\<close>. Its
  \<open>BlockNumber\<close> asks the wrapped client, passes an error on with 0, and otherwise
  returns \<open>blkNum - uint64(l.amount)\<close>. The answer of the wrapped client is the
  argument \<open>r\<close>; the Go \<open>int\<close> is given by its value, and \<open>uint64(_)\<close> of it is
  that value modulo \<open>2 ^ 64\<close>.
\<close>

definition laggerdL1Client_BlockNumber :: "int \<Rightarrow> error + uint64 \<Rightarrow> (uint64 \<times> error option)" where
  "laggerdL1Client_BlockNumber amount r =
     (case r of
        Inl err \<Rightarrow> (0, Some err)
      | Inr blkNum \<Rightarrow> (blkNum - word_of_int amount, None))"

section \<open>pkg/settler: transaction options\<close>

text \<open>
  \<open>bind.TransactOpts\<close>, with the fields the settler reads or writes. \<open>Nonce\<close>,
  \<open>GasFeeCap\<close> and \<open>GasTipCap\<close> are \<open>*big.Int\<close>, nil until assigned.
\<close>

record TransactOpts =
  From :: address
  Nonce :: "int option"
  GasFeeCap :: "int option"
  GasTipCap :: "int option"

text \<open>
  The collaborators of a \<open>Settler\<close> are interfaces; what each of them answers is a field
  of the environment. \<open>LastNonce\<close> answers an \<open>int64\<close>, \<open>PendingTxnCount\<close> an
  \<open>int\<close>. The last field is the Go toolchain the settler is built with: whether each
  iteration of a \<open>range\<close> loop has its own loop variable (Go 1.22 and later) or all
  iterations share one.
\<close>

record Transaction =
  tx_Hash :: hash
  tx_Nonce :: uint64

record Settler =
  keySigner_GetAuth :: "error + TransactOpts"
  client_PendingNonceAt :: "address \<Rightarrow> error + uint64"
  client_SuggestGasPrice :: "error + int"
  client_SuggestGasTipCap :: "error + int"
  settlerRegister_LastNonce :: "error + int64"
  settlerRegister_PendingTxnCount :: "error + int"
  rollupClient_ProcessBuilderCommitmentForBlockNumber ::
    "TransactOpts \<Rightarrow> bytes \<Rightarrow> int \<Rightarrow> string \<Rightarrow> bool \<Rightarrow> error + Transaction"
  rollupClient_UnlockFunds :: "TransactOpts \<Rightarrow> bytes list \<Rightarrow> error + Transaction"
  settlerRegister_SettlementInitiated :: "bytes list \<Rightarrow> hash \<Rightarrow> uint64 \<Rightarrow> error option"
  owner :: address
  client_BlockNumber :: "error + uint64"
  client_NonceAt :: "address \<Rightarrow> uint64 \<Rightarrow> error + uint64"
  settlerRegister_MarkSettlementComplete :: "uint64 \<Rightarrow> error + int"
  loopvar_per_iteration :: bool

text \<open>
  Lines 128 to 131 of \<open>getTransactOpts\<close>: the pending nonce of the RPC is kept unless it
  is at most \<open>uint64(usedNonce)\<close>, in which case it becomes \<open>uint64(usedNonce + 1)\<close>
  (the addition is the \<open>int64\<close> one and wraps). The comparison is unsigned.
\<close>

definition nextNonce :: "uint64 \<Rightarrow> int64 \<Rightarrow> uint64" where
  "nextNonce nonce usedNonce = (if nonce \<le> usedNonce then usedNonce + 1 else nonce)"

text \<open>
  \<open>getTransactOpts\<close>: every failing call returns its error at once. The nonce is stored
  as \<open>big.NewInt(int64(nonce))\<close>, the signed reading of the word.
\<close>

definition getTransactOpts :: "Settler \<Rightarrow> error + TransactOpts" where
  "getTransactOpts s =
     (case keySigner_GetAuth s of
        Inl err \<Rightarrow> Inl err
      | Inr auth \<Rightarrow>
     (case client_PendingNonceAt s (From auth) of
        Inl err \<Rightarrow> Inl err
      | Inr nonce \<Rightarrow>
     (case settlerRegister_LastNonce s of
        Inl err \<Rightarrow> Inl err
      | Inr usedNonce \<Rightarrow>
     (case client_SuggestGasTipCap s of
        Inl err \<Rightarrow> Inl err
      | Inr gasTip \<Rightarrow>
     (case client_SuggestGasPrice s of
        Inl err \<Rightarrow> Inl err
      | Inr gasPrice \<Rightarrow>
          Inr (auth\<lparr>Nonce := Some (sint (nextNonce nonce usedNonce)),
                    GasFeeCap := Some (gasTip + gasPrice),
                    GasTipCap := Some gasTip\<rparr>))))))"

text \<open>A settler whose collaborators all answer, used to run the definitions.\<close>

definition exampleAuth :: TransactOpts where
  "exampleAuth = \<lparr>From = [0xAB, 0xCD], Nonce = None, GasFeeCap = None, GasTipCap = None\<rparr>"

definition exampleTxn :: "TransactOpts \<Rightarrow> Transaction" where
  "exampleTxn opts =
     \<lparr>tx_Hash = [0x11], tx_Nonce = (case Nonce opts of None \<Rightarrow> 0 | Some n \<Rightarrow> word_of_int n)\<rparr>"

definition exampleSettler :: "uint64 \<Rightarrow> int64 \<Rightarrow> Settler" where
  "exampleSettler pending used =
     \<lparr>keySigner_GetAuth = Inr exampleAuth,
      client_PendingNonceAt = (\<lambda>_. Inr pending),
      client_SuggestGasPrice = Inr 7,
      client_SuggestGasTipCap = Inr 2,
      settlerRegister_LastNonce = Inr used,
      settlerRegister_PendingTxnCount = Inr 0,
      rollupClient_ProcessBuilderCommitmentForBlockNumber = (\<lambda>opts _ _ _ _. Inr (exampleTxn opts)),
      rollupClient_UnlockFunds = (\<lambda>opts _. Inr (exampleTxn opts)),
      settlerRegister_SettlementInitiated = (\<lambda>_ _ _. None),
      owner = [0xAB, 0xCD],
      client_BlockNumber = Inr 1,
      client_NonceAt = (\<lambda>_ _. Inr used),
      settlerRegister_MarkSettlementComplete = (\<lambda>_. Inr 1),
      loopvar_per_iteration = True\<rparr>"

section \<open>pkg/settler: settlements and the executor tasks\<close>

text \<open>
  \<open>SettlementType\<close> is a Go string type with three constants; a \<open>Settlement\<close> can
  carry any string.
\<close>

type_synonym SettlementType = string

definition SettlementTypeReward :: SettlementType where "SettlementTypeReward = ''reward''"
definition SettlementTypeSlash :: SettlementType where "SettlementTypeSlash = ''slash''"
definition SettlementTypeReturn :: SettlementType where "SettlementTypeReturn = ''return''"

record Settlement =
  CommitmentIdx :: bytes
  TxHash :: string
  BlockNum :: int64
  Builder :: string
  Amount :: uint64
  BidID :: bytes
  Type :: SettlementType

record Return =
  BidIDs :: "bytes list"

definition allowedPendingTxnCount :: int where "allowedPendingTxnCount = 128"
definition batchSize :: int where "batchSize = 10"

text \<open>
  What a task does to the outside, in the order it does it: the calls on the register
  and on the Oracle contract with their arguments, the lock, the logs, the metrics and
  the subscription. \<open>Call_getTransactOpts\<close> stands for the five queries of
  \<open>getTransactOpts\<close>.
\<close>

datatype task = Task_settlementUpdater | Task_settlementExecutor | Task_returnExecutor

datatype effect =
    Lock_txMtx
  | Unlock_txMtx
  | LogWarn_return_settlement bytes
  | Call_PendingTxnCount
  | Call_getTransactOpts
  | Call_ProcessBuilderCommitmentForBlockNumber TransactOpts bytes int string bool
  | Call_UnlockFunds TransactOpts "bytes list"
  | Call_SettlementInitiated "bytes list" hash uint64
  | Metrics_LastUsedNonce uint64
  | Metrics_SettlementsPostedCount_Inc
  | Metrics_CurrentSettlementL1Block int64
  | LogInfo_builder_commitment_processed
  | LogDebug_processing_return
  | LogInfo_builder_return_processed
  | LogError_failed_to_process error
  | Call_SubscribeSettlements
  | Call_SubscribeReturns int
  | Unsubscribe
  | Sleep_5_seconds
  | Call_BlockNumber
  | Call_NonceAt address uint64
  | Call_MarkSettlementComplete uint64
  | LogError_confirmer error
  | Metrics_confirmed uint64 uint64 int
  | LogInfo_marked_settlement_complete int
  | Errgroup_Go task
  | LogError_settler_error error
  | Close_doneChan

text \<open>
  \<open>copy(commitmentIdx[:], settlement.CommitmentIdx)\<close> into a zeroed \<open>[32]byte\<close>:
  the first 32 bytes, padded with zeros on the right.
\<close>

definition copy32 :: "bytes \<Rightarrow> bytes" where
  "copy32 b = take 32 b @ replicate (32 - length b) 0"

text \<open>
  The closure that \<open>settlementExecutor\<close> runs for one settlement, between
  \<open>txMtx.Lock()\<close> and the deferred \<open>Unlock\<close>. It returns the closure's error and
  what it did.
\<close>

definition settlementExecutor_body :: "Settler \<Rightarrow> Settlement \<Rightarrow> error option \<times> effect list" where
  "settlementExecutor_body s settlement =
     (if Type settlement = SettlementTypeReturn then
        (None, [LogWarn_return_settlement (CommitmentIdx settlement)])
      else
     (case settlerRegister_PendingTxnCount s of
        Inl err \<Rightarrow> (Some err, [Call_PendingTxnCount])
      | Inr pendingTxns \<Rightarrow>
     (if pendingTxns > allowedPendingTxnCount then
        (Some ErrTooManyPendingTxns, [Call_PendingTxnCount])
      else
     (case getTransactOpts s of
        Inl err \<Rightarrow> (Some err, [Call_PendingTxnCount, Call_getTransactOpts])
      | Inr opts \<Rightarrow>
     (let commitmentIdx = copy32 (CommitmentIdx settlement);
          blockNum = sint (BlockNum settlement);
          isSlash = (Type settlement = SettlementTypeSlash);
          call = Call_ProcessBuilderCommitmentForBlockNumber
                   opts commitmentIdx blockNum (Builder settlement) isSlash
      in
     (case rollupClient_ProcessBuilderCommitmentForBlockNumber s
             opts commitmentIdx blockNum (Builder settlement) isSlash of
        Inl err \<Rightarrow>
          (Some (ErrProcessCommitment err (Nonce opts)),
           [Call_PendingTxnCount, Call_getTransactOpts, call])
      | Inr commitmentPostingTxn \<Rightarrow>
     (let initiated = Call_SettlementInitiated [BidID settlement]
                        (tx_Hash commitmentPostingTxn) (tx_Nonce commitmentPostingTxn)
      in
     (case settlerRegister_SettlementInitiated s [BidID settlement]
             (tx_Hash commitmentPostingTxn) (tx_Nonce commitmentPostingTxn) of
        Some err \<Rightarrow>
          (Some (ErrMarkInitiated err),
           [Call_PendingTxnCount, Call_getTransactOpts, call, initiated])
      | None \<Rightarrow>
          (None,
           [Call_PendingTxnCount, Call_getTransactOpts, call, initiated,
            Metrics_LastUsedNonce (tx_Nonce commitmentPostingTxn),
            Metrics_SettlementsPostedCount_Inc,
            Metrics_CurrentSettlementL1Block (BlockNum settlement),
            LogInfo_builder_commitment_processed])))))))))"

definition processSettlement :: "Settler \<Rightarrow> Settlement \<Rightarrow> error option \<times> effect list" where
  "processSettlement s settlement =
     (case settlementExecutor_body s settlement of
        (err, fx) \<Rightarrow> (err, Lock_txMtx # fx @ [Unlock_txMtx]))"

text \<open>
  The loop of \<open>settlementExecutor\<close>. Each element of the input is one outcome of the
  \<open>select\<close>: the context is done, the channel delivers a settlement (with what the
  collaborators answer while it is processed), or the channel is closed. The result
  is \<open>Returned err\<close> when the task returns, \<open>Running\<close> when it waits in the
  \<open>select\<close> for more input.
\<close>

datatype 'a select = CtxDone error | Recv 'a Settler | ChanClosed

datatype task_result = Running | Returned error

fun settlementExecutor_loop ::
  "Settlement select list \<Rightarrow> effect list \<Rightarrow> task_result \<times> effect list" where
  "settlementExecutor_loop [] tr = (Running, tr)"
| "settlementExecutor_loop (CtxDone err # evs) tr = (Returned err, tr @ [Unsubscribe])"
| "settlementExecutor_loop (ChanClosed # evs) tr =
     settlementExecutor_loop evs (tr @ [Unsubscribe, Call_SubscribeSettlements])"
| "settlementExecutor_loop (Recv settlement s # evs) tr =
     (case processSettlement s settlement of
        (None, fx) \<Rightarrow> settlementExecutor_loop evs (tr @ fx)
      | (Some err, fx) \<Rightarrow>
          settlementExecutor_loop evs
            (tr @ fx @ [LogError_failed_to_process err, Unsubscribe, Sleep_5_seconds,
                        Call_SubscribeSettlements]))"

definition settlementExecutor :: "Settlement select list \<Rightarrow> task_result \<times> effect list" where
  "settlementExecutor evs = settlementExecutor_loop evs [Call_SubscribeSettlements]"

text \<open>
  \<open>returnExecutor\<close> has the same shape: one \<open>UnlockFunds\<close> call for a batch of bid
  IDs. The slice \<open>bidIDs\<close> for \<open>SettlementInitiated\<close> is built by appending
  \<open>bidID[:]\<close>, a slice of the loop variable: with one loop variable for all iterations
  every element is the same array, which holds the last bid ID when the loop is over.
\<close>

definition range_slices :: "bool \<Rightarrow> bytes list \<Rightarrow> bytes list" where
  "range_slices per_iteration ids =
     (if per_iteration then ids else replicate (length ids) (last ids))"

definition returnExecutor_body :: "Settler \<Rightarrow> Return \<Rightarrow> error option \<times> effect list" where
  "returnExecutor_body s returns =
     (case settlerRegister_PendingTxnCount s of
        Inl err \<Rightarrow> (Some err, [Call_PendingTxnCount])
      | Inr pendingTxns \<Rightarrow>
     (if pendingTxns > allowedPendingTxnCount then
        (Some ErrTooManyPendingTxns, [Call_PendingTxnCount])
      else
     (case getTransactOpts s of
        Inl err \<Rightarrow> (Some err, [Call_PendingTxnCount, Call_getTransactOpts])
      | Inr opts \<Rightarrow>
     (let bidIDs = range_slices (loopvar_per_iteration s) (BidIDs returns);
          call = Call_UnlockFunds opts (BidIDs returns)
      in
     (case rollupClient_UnlockFunds s opts (BidIDs returns) of
        Inl err \<Rightarrow>
          (Some (ErrProcessReturn err (Nonce opts)),
           [Call_PendingTxnCount, Call_getTransactOpts, LogDebug_processing_return, call])
      | Inr commitmentPostingTxn \<Rightarrow>
     (let initiated = Call_SettlementInitiated bidIDs
                        (tx_Hash commitmentPostingTxn) (tx_Nonce commitmentPostingTxn)
      in
     (case settlerRegister_SettlementInitiated s bidIDs
             (tx_Hash commitmentPostingTxn) (tx_Nonce commitmentPostingTxn) of
        Some err \<Rightarrow>
          (Some (ErrMarkInitiated err),
           [Call_PendingTxnCount, Call_getTransactOpts, LogDebug_processing_return, call,
            initiated])
      | None \<Rightarrow>
          (None,
           [Call_PendingTxnCount, Call_getTransactOpts, LogDebug_processing_return, call,
            initiated,
            Metrics_LastUsedNonce (tx_Nonce commitmentPostingTxn),
            Metrics_SettlementsPostedCount_Inc,
            LogInfo_builder_return_processed]))))))))"

definition processReturn :: "Settler \<Rightarrow> Return \<Rightarrow> error option \<times> effect list" where
  "processReturn s returns =
     (case returnExecutor_body s returns of
        (err, fx) \<Rightarrow> (err, Lock_txMtx # fx @ [Unlock_txMtx]))"

fun returnExecutor_loop ::
  "Return select list \<Rightarrow> effect list \<Rightarrow> task_result \<times> effect list" where
  "returnExecutor_loop [] tr = (Running, tr)"
| "returnExecutor_loop (CtxDone err # evs) tr = (Returned err, tr @ [Unsubscribe])"
| "returnExecutor_loop (ChanClosed # evs) tr =
     returnExecutor_loop evs (tr @ [Unsubscribe, Call_SubscribeReturns batchSize])"
| "returnExecutor_loop (Recv returns s # evs) tr =
     (case processReturn s returns of
        (None, fx) \<Rightarrow> returnExecutor_loop evs (tr @ fx)
      | (Some err, fx) \<Rightarrow>
          returnExecutor_loop evs
            (tr @ fx @ [LogError_failed_to_process err, Unsubscribe, Sleep_5_seconds,
                        Call_SubscribeReturns batchSize]))"

definition returnExecutor :: "Return select list \<Rightarrow> task_result \<times> effect list" where
  "returnExecutor evs = returnExecutor_loop evs [Call_SubscribeReturns batchSize]"

text \<open>
  \<open>settlementUpdater\<close>, the confirmer: at each tick of the 500 ms ticker it reads the
  head, skips when the head has not advanced, reads the owner's nonce at the head and
  marks the settlements up to it complete. Every failure is logged and the loop goes
  on; only a done context makes it return.
\<close>

datatype tick = TickCtxDone error | Tick Settler

fun settlementUpdater_loop ::
  "tick list \<Rightarrow> uint64 \<Rightarrow> effect list \<Rightarrow> task_result \<times> effect list" where
  "settlementUpdater_loop [] lastBlock tr = (Running, tr)"
| "settlementUpdater_loop (TickCtxDone err # evs) lastBlock tr = (Returned err, tr)"
| "settlementUpdater_loop (Tick s # evs) lastBlock tr =
     (case client_BlockNumber s of
        Inl err \<Rightarrow>
          settlementUpdater_loop evs lastBlock (tr @ [Call_BlockNumber, LogError_confirmer err])
      | Inr currentBlock \<Rightarrow>
     (if currentBlock \<le> lastBlock then
        settlementUpdater_loop evs lastBlock (tr @ [Call_BlockNumber])
      else
     (case client_NonceAt s (owner s) currentBlock of
        Inl err \<Rightarrow>
          settlementUpdater_loop evs lastBlock
            (tr @ [Call_BlockNumber, Call_NonceAt (owner s) currentBlock,
                   LogError_confirmer err])
      | Inr lastNonce \<Rightarrow>
     (case settlerRegister_MarkSettlementComplete s lastNonce of
        Inl err \<Rightarrow>
          settlementUpdater_loop evs lastBlock
            (tr @ [Call_BlockNumber, Call_NonceAt (owner s) currentBlock,
                   Call_MarkSettlementComplete lastNonce, LogError_confirmer err])
      | Inr count \<Rightarrow>
          settlementUpdater_loop evs currentBlock
            (tr @ [Call_BlockNumber, Call_NonceAt (owner s) currentBlock,
                   Call_MarkSettlementComplete lastNonce,
                   Metrics_confirmed lastNonce currentBlock count]
                @ (if count > 0 then [LogInfo_marked_settlement_complete count] else []))))))"

definition settlementUpdater :: "tick list \<Rightarrow> task_result \<times> effect list" where
  "settlementUpdater evs = settlementUpdater_loop evs 0 []"

text \<open>
  \<open>Start\<close> puts the three tasks in an error group, and a fourth goroutine waits for the
  group, logs its error if it has one, and closes the done channel. The argument is
  what \<open>eg.Wait()\<close> returns; the result is what \<open>Start\<close> and its waiting goroutine do.
\<close>

definition Start :: "error option \<Rightarrow> effect list" where
  "Start waited =
     [Errgroup_Go Task_settlementUpdater, Errgroup_Go Task_settlementExecutor,
      Errgroup_Go Task_returnExecutor]
     @ (case waited of Some err \<Rightarrow> [LogError_settler_error err] | None \<Rightarrow> [])
     @ [Close_doneChan]"

fun is_Errgroup_Go :: "effect \<Rightarrow> bool" where
  "is_Errgroup_Go (Errgroup_Go _) = True"
| "is_Errgroup_Go _ = False"

text \<open>What the Oracle contract is sent by a call, as a list of ABI values.\<close>

datatype abi_value = Abi_bytes32 bytes | Abi_uint256 int | Abi_string string | Abi_bool bool

fun oracle_call_args :: "effect \<Rightarrow> abi_value list" where
  "oracle_call_args (Call_ProcessBuilderCommitmentForBlockNumber opts idx blockNum builder isSlash) =
     [Abi_bytes32 idx, Abi_uint256 blockNum, Abi_string builder, Abi_bool isSlash]"
| "oracle_call_args _ = []"

text \<open>
  The call as the specification words it, for comparison with the call the executor
  makes: \<open>ProcessBuilderCommitmentForBlockNumber(idx, block, builder, isSlash, decay, window)\<close>.
\<close>

definition spec_oracle_call_args ::
  "bytes \<Rightarrow> int \<Rightarrow> string \<Rightarrow> bool \<Rightarrow> int \<Rightarrow> int \<Rightarrow> abi_value list" where
  "spec_oracle_call_args idx blockNum builder isSlash decay window =
     [Abi_bytes32 idx, Abi_uint256 blockNum, Abi_string builder, Abi_bool isSlash,
      Abi_uint256 decay, Abi_uint256 window]"

definition exampleSettlement :: "SettlementType \<Rightarrow> Settlement" where
  "exampleSettlement t =
     \<lparr>CommitmentIdx = [1, 2], TxHash = ''aa'', BlockNum = 5, Builder = ''0xabcd'',
      Amount = 0, BidID = [9], Type = t\<rparr>"

definition busySettler :: Settler where
  "busySettler = (exampleSettler 5 3)\<lparr>settlerRegister_PendingTxnCount := Inr 129\<rparr>"

section \<open>pkg/updater: the handler of \<open>CommitmentStored\<close>\<close>

text \<open>
  The fields of the \<open>CommitmentStored\<close> event that the handler reads, the \<open>Winner\<close>
  of the register, an EVM block reduced to its header time and the hashes of its
  transactions in order (hexadecimal, without the \<open>0x\<close> prefix, as the commitments of
  \<open>TestUpdater\<close> name them), and the arguments of \<open>AddSettlement\<close>: these are the
  declarations the test file uses.
\<close>

record CommitmentStored =
  CommitmentIndex :: bytes
  Commiter :: address
  TxnHash :: string
  BlockNumber :: int
  CommitmentHash :: bytes
  DecayStartTimeStamp :: nat
  DecayEndTimeStamp :: nat
  BlockCommitedAt :: int

record Winner =
  winner_Winner :: bytes
  winner_Window :: int

record Block =
  header_Time :: nat
  block_Transactions :: "string list"

record AddSettlement =
  add_commitmentIdx :: bytes
  add_txHash :: string
  add_blockNum :: int
  add_amount :: nat
  add_builder :: bytes
  add_bidID :: bytes
  add_settlementType :: SettlementType
  add_decayPercentage :: int
  add_window :: int

record WinnerRegister =
  IsSettled :: "bytes \<Rightarrow> error + bool"
  GetWinner :: "int \<Rightarrow> error + Winner"

type_synonym EVMClient = "int \<Rightarrow> error + Block"

text \<open>
  Modelled from the spec: the splitting of the \<open>txn_hash\<close> field at its commas (the
  Updater's source, package \<open>updater\<close>, is not among the source files; only its test
  is). A field without a comma is one hash.
\<close>

fun split_commas :: "string \<Rightarrow> string list" where
  "split_commas [] = [[]]"
| "split_commas (c # cs) =
     (if c = CHR '','' then [] # split_commas cs
      else (case split_commas cs of
              [] \<Rightarrow> [[c]]
            | w # ws \<Rightarrow> (c # w) # ws))"

text \<open>
  Modelled from the spec: bundle matching (section 4.5), a linear scan of the block's
  transactions that looks for the claimed hashes one after the other. The Updater's
  source is not among the source files.
\<close>

fun bundle_match :: "string list \<Rightarrow> string list \<Rightarrow> bool" where
  "bundle_match [] txs = True"
| "bundle_match (h # hs) [] = False"
| "bundle_match (h # hs) (t # txs) =
     (if t = h then bundle_match hs txs else bundle_match (h # hs) txs)"

text \<open>
  Modelled from the spec: the decay percentage of step 5 of section 4.5. The Updater's
  source is not among the source files.
\<close>

definition computeDecay :: "nat \<Rightarrow> nat \<Rightarrow> nat \<Rightarrow> int" where
  "computeDecay decay_start decay_end block_ts =
     (if block_ts \<le> decay_start then 100
      else if block_ts \<ge> decay_end then 0
      else int (100 * (decay_end - block_ts) div (decay_end - decay_start)))"

text \<open>
  Modelled from the spec: the two sources that step 5 of section 4.5 names for the block
  timestamp of the decay, the L1 block of the commitment's block number, "or L2
  timestamp in older deployments". The specification does not say which L2 block is
  read: the function that gives its number is part of the source. The Updater's source
  is not among the source files.
\<close>

datatype ts_source = L1_block_number | L2_block "CommitmentStored \<Rightarrow> int"

text \<open>The source that the specification puts first.\<close>

definition spec_variant :: ts_source where
  "spec_variant = L1_block_number"

definition block_ts :: "ts_source \<Rightarrow> EVMClient \<Rightarrow> EVMClient \<Rightarrow> CommitmentStored \<Rightarrow> error + nat" where
  "block_ts v l1 l2 c =
     (case v of
        L1_block_number \<Rightarrow>
          (case l1 (BlockNumber c) of Inl err \<Rightarrow> Inl err | Inr blk \<Rightarrow> Inr (header_Time blk))
      | L2_block number \<Rightarrow>
          (case l2 (number c) of Inl err \<Rightarrow> Inl err | Inr blk \<Rightarrow> Inr (header_Time blk)))"

datatype handle_result = Dropped | Deferred | Failed error | Settled AddSettlement

definition settlement_for ::
  "CommitmentStored \<Rightarrow> SettlementType \<Rightarrow> int \<Rightarrow> int \<Rightarrow> AddSettlement" where
  "settlement_for c t decay window =
     \<lparr>add_commitmentIdx = CommitmentIndex c, add_txHash = TxnHash c,
      add_blockNum = BlockNumber c, add_amount = 0, add_builder = Commiter c,
      add_bidID = CommitmentHash c, add_settlementType = t,
      add_decayPercentage = decay, add_window = window\<rparr>"

text \<open>
  Modelled from the spec: the handler of \<open>CommitmentStored\<close>, steps 1 to 6 of section
  4.5 (the Updater's source is not among the source files). A settled commitment is
  dropped; a commitment without a registered winner is deferred; for a committer other
  than the winner a RETURN settlement is emitted and the handler stops; otherwise the
  L1 block is fetched, the claimed hashes are matched, the decay is computed and the
  settlement is added with the committer as builder, amount 0 and the commitment hash
  as bid id.
\<close>

definition handleCommitment ::
  "ts_source \<Rightarrow> WinnerRegister \<Rightarrow> EVMClient \<Rightarrow> EVMClient \<Rightarrow> CommitmentStored
   \<Rightarrow> handle_result" where
  "handleCommitment v reg l1 l2 c =
     (case IsSettled reg (CommitmentIndex c) of
        Inl err \<Rightarrow> Failed err
      | Inr True \<Rightarrow> Dropped
      | Inr False \<Rightarrow>
     (case GetWinner reg (BlockNumber c) of
        Inl err \<Rightarrow> Deferred
      | Inr winner \<Rightarrow>
     (if Commiter c \<noteq> winner_Winner winner then
        Settled (settlement_for c SettlementTypeReturn 0 (winner_Window winner))
      else
     (case l1 (BlockNumber c) of
        Inl err \<Rightarrow> Failed err
      | Inr blk \<Rightarrow>
     (let t = (if bundle_match (split_commas (TxnHash c)) (block_Transactions blk)
               then SettlementTypeReward else SettlementTypeSlash)
      in
     (case block_ts v l1 l2 c of
        Inl err \<Rightarrow> Failed err
      | Inr ts \<Rightarrow>
     (let decay = computeDecay (DecayStartTimeStamp c) (DecayEndTimeStamp c) ts
      in Settled (settlement_for c t decay (winner_Window winner)))))))))"

text \<open>The calls of \<open>AddSettlement\<close> that handling one event makes.\<close>

definition AddSettlement_calls :: "handle_result \<Rightarrow> AddSettlement list" where
  "AddSettlement_calls r = (case r of Settled a \<Rightarrow> [a] | _ \<Rightarrow> [])"

section \<open>pkg/updater: the tests of the repository\<close>

text \<open>
  \<open>common.HexToAddress("0xabcd")\<close> and \<open>("0xabdc")\<close>: 20 bytes, left-padded.
  \<open>getIdxBytes\<close> fills 32 bytes with the big-endian index.
\<close>

definition builderAddr :: address where
  "builderAddr = replicate 18 0 @ [0xAB, 0xCD]"


fun big_endian :: "nat \<Rightarrow> nat \<Rightarrow> bytes" where
  "big_endian 0 n = []"
| "big_endian (Suc k) n = big_endian k (n div 256) @ [word_of_nat (n mod 256)]"

definition getIdxBytes :: "nat \<Rightarrow> bytes" where
  "getIdxBytes idx = big_endian 32 idx"

definition startTimestamp :: nat where "startTimestamp = 1615195200000"
definition midTimestamp :: nat where "midTimestamp = startTimestamp + 2500"
definition endTimestamp :: nat where "endTimestamp = startTimestamp + 5000"

text \<open>
  The test doubles: the register holds one winner for every block and reports nothing
  as settled; an EVM client serves one block at one number.
\<close>

definition testWinnerRegister :: WinnerRegister where
  "testWinnerRegister =
     \<lparr>IsSettled = (\<lambda>_. Inr False),
      GetWinner = (\<lambda>_. Inr \<lparr>winner_Winner = builderAddr, winner_Window = 1\<rparr>)\<rparr>"

definition testEVMClient_BlockByNumber :: "int \<Rightarrow> Block \<Rightarrow> EVMClient" where
  "testEVMClient_BlockByNumber blockNum block blkNum =
     (if blkNum = blockNum then Inr block else Inl (Err ''block not found''))"

definition l1Client :: "string list \<Rightarrow> EVMClient" where
  "l1Client txns =
     testEVMClient_BlockByNumber 5 \<lparr>header_Time = 0, block_Transactions = txns\<rparr>"

definition l2Client :: "string list \<Rightarrow> EVMClient" where
  "l2Client txns =
     testEVMClient_BlockByNumber 0 \<lparr>header_Time = midTimestamp, block_Transactions = txns\<rparr>"

text \<open>
  The commitments of \<open>TestUpdater\<close>, for the hashes \<open>txns\<close> of the ten transactions (hex
  without \<open>0x\<close>): ten commitments of one hash, the even ones by the winner and the odd
  ones by the other builder, then ten bundles by the winner, the \<open>i\<close>-th naming the
  transactions from \<open>i\<close> on in the block's order.
\<close>

fun join_commas :: "string list \<Rightarrow> string" where
  "join_commas [] = []"
| "join_commas [x] = x"
| "join_commas (x # y # ys) = x @ CHR '','' # join_commas (y # ys)"

definition test_commitment :: "nat \<Rightarrow> address \<Rightarrow> string \<Rightarrow> nat \<Rightarrow> CommitmentStored" where
  "test_commitment idx committer txnHash i =
     \<lparr>CommitmentIndex = getIdxBytes idx, Commiter = committer, TxnHash = txnHash,
      BlockNumber = 5, CommitmentHash = getIdxBytes i,
      DecayStartTimeStamp = startTimestamp, DecayEndTimeStamp = endTimestamp,
      BlockCommitedAt = 0\<rparr>"


text \<open>
  \<open>testSettlement\<close> is what the test register's \<open>AddSettlement\<close> sends on the channel
  \<open>settlements\<close>, which has capacity 1: a send on the full channel blocks.
\<close>

record testSettlement =
  commitmentIdx :: bytes
  txHash :: string
  blockNum :: int
  builder :: bytes
  amount :: nat
  settlementType :: SettlementType
  decayPercentage :: int
  window :: int

definition testWinnerRegister_AddSettlement :: "AddSettlement \<Rightarrow> testSettlement" where
  "testWinnerRegister_AddSettlement a =
     \<lparr>commitmentIdx = add_commitmentIdx a, txHash = add_txHash a, blockNum = add_blockNum a,
      builder = add_builder a, amount = add_amount a, settlementType = add_settlementType a,
      decayPercentage = add_decayPercentage a, window = add_window a\<rparr>"

fun send_settlements :: "testSettlement list \<Rightarrow> AddSettlement list \<Rightarrow> testSettlement list option" where
  "send_settlements chan [] = Some chan"
| "send_settlements chan (a # as) =
     (if length chan < 1 then send_settlements (chan @ [testWinnerRegister_AddSettlement a]) as
      else None)"

datatype test_outcome = Test_pass | Test_fatal string | Test_blocked




text \<open>
  \<open>TestUpdaterBundlesFailure\<close>: nine bundles by the winner, the \<open>i\<close>-th naming
  transaction \<open>i\<close> and then the transactions \<open>10 - i\<close> down to 1, each hash with its
  \<open>0x\<close> prefix. Every one must be settled as a slash with decay 0.
\<close>

definition Hex :: "string \<Rightarrow> string" where
  "Hex t = ''0x'' @ t"

definition TestUpdaterBundlesFailure_commitments :: "string list \<Rightarrow> CommitmentStored list" where
  "TestUpdaterBundlesFailure_commitments txns =
     map (\<lambda>i. test_commitment i builderAddr
                 (join_commas (Hex (txns ! i) # map (\<lambda>j. Hex (txns ! j)) (rev [1..<Suc (10 - i)]))) i)
       [1..<10]"

definition TestUpdaterBundlesFailure_check :: "CommitmentStored \<Rightarrow> testSettlement \<Rightarrow> string option" where
  "TestUpdaterBundlesFailure_check c settlement =
     (if commitmentIdx settlement \<noteq> CommitmentIndex c then Some ''wrong commitment index''
      else if txHash settlement \<noteq> TxnHash c then Some ''wrong txn hash''
      else if blockNum settlement \<noteq> 5 then Some ''wrong block number''
      else if builder settlement \<noteq> Commiter c then Some ''wrong builder''
      else if amount settlement \<noteq> 0 then Some ''wrong amount''
      else if settlementType settlement \<noteq> SettlementTypeSlash then Some ''wrong settlement type''
      else if decayPercentage settlement \<noteq> 0 then Some ''wrong decay percentage''
      else if window settlement \<noteq> 1 then Some ''wrong window''
      else None)"

fun TestUpdaterBundlesFailure_loop ::
  "(CommitmentStored \<Rightarrow> AddSettlement list) \<Rightarrow> testSettlement list \<Rightarrow> CommitmentStored list
   \<Rightarrow> test_outcome" where
  "TestUpdaterBundlesFailure_loop h chan [] = Test_pass"
| "TestUpdaterBundlesFailure_loop h chan (c # cs) =
     (case send_settlements chan (h c) of
        None \<Rightarrow> Test_blocked
      | Some chan' \<Rightarrow>
          (case chan' of
             [] \<Rightarrow> Test_fatal ''timeout''
           | settlement # rest \<Rightarrow>
               (case TestUpdaterBundlesFailure_check c settlement of
                  Some msg \<Rightarrow> Test_fatal msg
                | None \<Rightarrow> TestUpdaterBundlesFailure_loop h rest cs)))"

definition TestUpdaterBundlesFailure ::
  "(CommitmentStored \<Rightarrow> AddSettlement list) \<Rightarrow> string list \<Rightarrow> test_outcome" where
  "TestUpdaterBundlesFailure h txns =
     TestUpdaterBundlesFailure_loop h [] (TestUpdaterBundlesFailure_commitments txns)"

text \<open>The handler with a source of the block timestamp, run against the doubles of the tests.\<close>

definition tested_handler :: "ts_source \<Rightarrow> string list \<Rightarrow> CommitmentStored \<Rightarrow> AddSettlement list" where
  "tested_handler v txns c =
     AddSettlement_calls (handleCommitment v testWinnerRegister (l1Client txns) (l2Client txns) c)"

text \<open>Ten transaction hashes to run the tests on: 64 hexadecimal digits each.\<close>

definition example_txns :: "string list" where
  "example_txns = map (\<lambda>d. replicate 63 CHR ''0'' @ [d]) ''0123456789''"

text \<open>
  Modelled from the spec: the specification's own wording of bundle matching (the
  Updater's source is not among the source files), for comparison with the linear
  scan: indices \<open>i\<^sub>1 < \<dots> < i\<^sub>n\<close> into the block's transactions at which the claimed
  hashes stand.
\<close>

definition in_order_at :: "nat list \<Rightarrow> string list \<Rightarrow> string list \<Rightarrow> bool" where
  "in_order_at idxs hs txs \<longleftrightarrow>
     length idxs = length hs \<and> sorted_wrt (<) idxs
     \<and> (\<forall>k<length hs. idxs ! k < length txs \<and> txs ! (idxs ! k) = hs ! k)"

text \<open>
  The type that the handler gives a commitment of the tests that the winner made, for
  the hashes \<open>txns\<close> of the L1 block and the \<open>txn_hash\<close> field \<open>h\<close>.
\<close>

definition tested_type :: "string list \<Rightarrow> string \<Rightarrow> SettlementType" where
  "tested_type txns h =
     (if bundle_match (split_commas h) txns then SettlementTypeReward else SettlementTypeSlash)"


text \<open>
  Scenario 4 of the specification: an L1 block 5 with six transactions and the header
  time at the midpoint of the decay window.
\<close>

definition scenario_l1 :: EVMClient where
  "scenario_l1 =
     testEVMClient_BlockByNumber 5
       \<lparr>header_Time = midTimestamp,
        block_Transactions = [''h1'', ''h3'', ''h4'', ''h5'', ''h6'', ''h7'']\<rparr>"

section \<open>Theorems\<close>

subsection \<open>The lagging client\<close>

text \<open>
  C10. For every lag amount \<open>k\<close> and every head the wrapped client reports,
  \<open>BlockNumber\<close> returns \<open>(head - k) mod 2 ^ 64\<close> with no error. When the head is
  below a lag \<open>k < 2 ^ 64\<close>, that is \<open>2 ^ 64 + head - k\<close>: a wrapped value of at
  least \<open>2 ^ 64 - k\<close>, neither zero nor an error.
\<close>

theorem laggerd_BlockNumber_wraps:
  "laggerdL1Client_BlockNumber k (Inr h) = (h - word_of_int k, None)
   \<and> uint (h - word_of_int k :: uint64) = (uint h - k) mod 2 ^ 64
   \<and> (uint h < k \<and> k < 2 ^ 64 \<longrightarrow>
        uint (fst (laggerdL1Client_BlockNumber k (Inr h))) = 2 ^ 64 + uint h - k
        \<and> fst (laggerdL1Client_BlockNumber k (Inr h)) \<noteq> 0
        \<and> snd (laggerdL1Client_BlockNumber k (Inr h)) = None)"
proof -
  have m: "uint (h - word_of_int k :: uint64) = (uint h - k) mod 2 ^ 64"
    by (simp add: uint_word_ariths uint_word_of_int mod_diff_right_eq)
  have w: "uint (h - word_of_int k :: uint64) = 2 ^ 64 + uint h - k"
    if "uint h < k" "k < 2 ^ 64"
  proof -
    have lo: "0 \<le> uint h - k + 2 ^ 64"
      using that(2) uint_ge_0 [of h] by linarith
    have hi: "uint h - k + 2 ^ 64 < 2 ^ 64"
      using that(1) by linarith
    have "(uint h - k) mod 2 ^ 64 = (uint h - k + 2 ^ 64) mod 2 ^ 64"
      by simp
    also have "\<dots> = uint h - k + 2 ^ 64"
      using lo hi by (rule mod_pos_pos_trivial)
    finally show ?thesis using m by simp
  qed
  have nz: "h - word_of_int k \<noteq> (0 :: uint64)" if "uint h < k" "k < 2 ^ 64"
  proof
    assume "h - word_of_int k = (0 :: uint64)"
    then have "uint (h - word_of_int k :: uint64) = 0" by simp
    with w [OF that] have "2 ^ 64 + uint h - k = 0" by simp
    with that(2) uint_ge_0 [of h] show False by linarith
  qed
  show ?thesis
    using m w nz by (simp add: laggerdL1Client_BlockNumber_def)
qed

theorem laggerd_BlockNumber_wraps_witness:
  "uint (3 :: uint64) < 5 \<and> (5 :: int) < 2 ^ 64
   \<and> laggerdL1Client_BlockNumber 5 (Inr 3) = (18446744073709551614, None)
   \<and> uint (fst (laggerdL1Client_BlockNumber 5 (Inr 3))) = 2 ^ 64 + 3 - 5"
  using laggerd_BlockNumber_wraps [of 5 3] by simp

subsection \<open>The nonce of \<open>getTransactOpts\<close>\<close>

lemma sint_small:
  assumes "uint (w::64 word) < 2 ^ 63" shows "sint w = uint w"
proof -
  have "- (2 ^ 63) \<le> uint w"
    using uint_ge_0 [of w] by (rule order_trans [rotated]) simp
  then have "signed_take_bit 63 (uint w) = uint w"
    using assms by (rule signed_take_bit_int_eq_self)
  then show ?thesis by (simp add: sint_uint)
qed

lemma uint_of_nonneg_sint:
  assumes "0 \<le> sint (w::64 word)" shows "uint w < 2 ^ 63"
proof (rule ccontr)
  assume "\<not> uint w < 2 ^ 63"
  then have "2 ^ 63 \<le> uint w" by simp
  then have "signed_take_bit 63 (uint w) \<le> uint w - 2 ^ Suc 63"
    by (rule signed_take_bit_int_less_eq)
  then have "sint w \<le> uint w - 2 ^ Suc 63" by (simp add: sint_uint)
  moreover have "uint w < 2 ^ Suc 63" using uint_lt2p [of w] by simp
  ultimately have "sint w < 0" by linarith
  with assms show False by simp
qed

lemma uint_succ: "uint (u::64 word) < 2 ^ 63 - 1 \<Longrightarrow> uint (u + 1) = uint u + 1"
  by (simp add: uint_plus_if')

lemma nextNonce_max:
  assumes u0: "0 \<le> sint usedNonce" and u1: "sint usedNonce < 2 ^ 63 - 1"
    and p: "uint nonce < 2 ^ 63"
  shows "sint (nextNonce nonce usedNonce) = max (uint nonce) (sint usedNonce + 1)"
proof -
  have us: "uint usedNonce < 2 ^ 63" using u0 by (rule uint_of_nonneg_sint)
  have su: "sint usedNonce = uint usedNonce" using us by (rule sint_small)
  show ?thesis
  proof (cases "nonce \<le> usedNonce")
    case True
    then have le: "uint nonce \<le> uint usedNonce" by (simp add: word_le_def)
    have "uint (usedNonce + 1) = uint usedNonce + 1"
      using u1 su by (intro uint_succ) simp
    moreover from this have "sint (usedNonce + 1) = uint (usedNonce + 1)"
      using u1 su by (intro sint_small) simp
    ultimately show ?thesis using True le su by (simp add: nextNonce_def)
  next
    case False
    then have "uint usedNonce < uint nonce" by (simp add: word_le_def)
    then show ?thesis using False su sint_small [OF p] by (simp add: nextNonce_def)
  qed
qed

text \<open>
  C1, as the specification states it, fails: with a pending nonce 5 at the RPC and a last
  recorded nonce 3 the transaction gets nonce 5, which is not \<open>max 5 3 + 1 = 6\<close> and is
  not strictly greater than the pending nonce.
\<close>

theorem getTransactOpts_nonce_counterexample:
  "getTransactOpts (exampleSettler 5 3) =
     Inr (exampleAuth\<lparr>Nonce := Some 5, GasFeeCap := Some 9, GasTipCap := Some 2\<rparr>)
   \<and> (5 :: int) \<noteq> max (uint (5 :: uint64)) (sint (3 :: int64)) + 1
   \<and> \<not> uint (5 :: uint64) < 5"
  by (simp add: getTransactOpts_def exampleSettler_def exampleAuth_def nextNonce_def)

text \<open>
  C1, amended. When the collaborators answer, the last recorded nonce is not negative
  and both nonces are below \<open>2 ^ 63 - 1\<close>, \<open>getTransactOpts\<close> assigns the nonce
  \<open>max(rpc.PendingNonce, store.LastNonce + 1)\<close>: strictly greater than the last
  recorded nonce, and at least (not strictly greater than) the pending nonce of the RPC.
\<close>

theorem getTransactOpts_nonce:
  assumes "keySigner_GetAuth s = Inr auth"
    and "client_PendingNonceAt s (From auth) = Inr nonce"
    and "settlerRegister_LastNonce s = Inr usedNonce"
    and "client_SuggestGasTipCap s = Inr gasTip"
    and "client_SuggestGasPrice s = Inr gasPrice"
    and "0 \<le> sint usedNonce" and "sint usedNonce < 2 ^ 63 - 1" and "uint nonce < 2 ^ 63"
  shows "getTransactOpts s =
           Inr (auth\<lparr>Nonce := Some (max (uint nonce) (sint usedNonce + 1)),
                     GasFeeCap := Some (gasTip + gasPrice), GasTipCap := Some gasTip\<rparr>)
         \<and> sint usedNonce < max (uint nonce) (sint usedNonce + 1)
         \<and> uint nonce \<le> max (uint nonce) (sint usedNonce + 1)"
  using assms nextNonce_max [of usedNonce nonce] by (simp add: getTransactOpts_def)

theorem getTransactOpts_nonce_witness:
  "getTransactOpts (exampleSettler 5 3) =
     Inr (exampleAuth\<lparr>Nonce := Some 5, GasFeeCap := Some 9, GasTipCap := Some 2\<rparr>)
   \<and> getTransactOpts (exampleSettler 2 3) =
     Inr (exampleAuth\<lparr>Nonce := Some 4, GasFeeCap := Some 9, GasTipCap := Some 2\<rparr>)"
  using getTransactOpts_nonce [of "exampleSettler 5 3" exampleAuth 5 3 2 7]
    getTransactOpts_nonce [of "exampleSettler 2 3" exampleAuth 2 3 2 7]
  by (simp add: exampleSettler_def exampleAuth_def)

text \<open>
  C9. When \<open>LastNonce()\<close> returns \<open>-1\<close>, the unsigned comparison
  \<open>nonce <= uint64(usedNonce)\<close> holds for every pending nonce, the branch
  \<open>nonce = uint64(usedNonce + 1)\<close> is taken, and \<open>getTransactOpts\<close> assigns the nonce 0
  whatever \<open>PendingNonceAt\<close> returned.
\<close>

theorem getTransactOpts_LastNonce_minus_one:
  assumes "keySigner_GetAuth s = Inr auth"
    and "client_PendingNonceAt s (From auth) = Inr nonce"
    and "settlerRegister_LastNonce s = Inr (- 1)"
    and "client_SuggestGasTipCap s = Inr gasTip"
    and "client_SuggestGasPrice s = Inr gasPrice"
  shows "sint (- 1 :: int64) = - 1
         \<and> nonce \<le> (- 1 :: uint64)
         \<and> nextNonce nonce (- 1) = 0
         \<and> getTransactOpts s =
             Inr (auth\<lparr>Nonce := Some 0, GasFeeCap := Some (gasTip + gasPrice),
                       GasTipCap := Some gasTip\<rparr>)"
  using assms by (simp add: getTransactOpts_def nextNonce_def)

theorem getTransactOpts_LastNonce_minus_one_witness:
  "getTransactOpts (exampleSettler 7 (- 1)) =
     Inr (exampleAuth\<lparr>Nonce := Some 0, GasFeeCap := Some 9, GasTipCap := Some 2\<rparr>)
   \<and> getTransactOpts (exampleSettler 18446744073709551615 (- 1)) =
     Inr (exampleAuth\<lparr>Nonce := Some 0, GasFeeCap := Some 9, GasTipCap := Some 2\<rparr>)"
  using getTransactOpts_LastNonce_minus_one [of "exampleSettler 7 (- 1)" exampleAuth 7 2 7]
    getTransactOpts_LastNonce_minus_one
      [of "exampleSettler 18446744073709551615 (- 1)" exampleAuth 18446744073709551615 2 7]
  by (simp add: exampleSettler_def exampleAuth_def)

subsection \<open>The settlement executor\<close>

lemma exampleSettler_opts:
  "getTransactOpts (exampleSettler 5 3) =
     Inr (exampleAuth\<lparr>Nonce := Some 5, GasFeeCap := Some 9, GasTipCap := Some 2\<rparr>)"
  by (simp add: getTransactOpts_def exampleSettler_def exampleAuth_def nextNonce_def)

text \<open>
  C2, as the specification states it, fails: for a reward settlement the executor sends
  the Oracle contract four values (index, block number, builder, slash flag), not the
  six of the specification; no decay percentage and no window is passed.
\<close>

theorem settlementExecutor_oracle_call_counterexample:
  "filter (\<lambda>args. args \<noteq> [])
     (map oracle_call_args
        (snd (processSettlement (exampleSettler 5 3) (exampleSettlement SettlementTypeReward)))) =
   [[Abi_bytes32 (copy32 [1, 2]), Abi_uint256 5, Abi_string ''0xabcd'', Abi_bool False]]
   \<and> [Abi_bytes32 (copy32 [1, 2]), Abi_uint256 5, Abi_string ''0xabcd'', Abi_bool False]
       \<noteq> spec_oracle_call_args (copy32 [1, 2]) 5 ''0xabcd'' False 50 1
   \<and> length (spec_oracle_call_args (copy32 [1, 2]) 5 ''0xabcd'' False 50 1) = 6"
  by (simp add: processSettlement_def settlementExecutor_body_def allowedPendingTxnCount_def
      getTransactOpts_def exampleSettler_def exampleAuth_def exampleTxn_def nextNonce_def
      exampleSettlement_def SettlementTypeReward_def SettlementTypeReturn_def
      SettlementTypeSlash_def spec_oracle_call_args_def Let_def)

text \<open>
  C2, amended. For every settlement that is not a RETURN and reaches the submission
  (\<open>PendingTxnCount\<close> answers at most 128 and \<open>getTransactOpts\<close> succeeds), the executor
  makes exactly one call of the Oracle contract,
  \<open>ProcessBuilderCommitmentForBlockNumber(opts, idx, block, builder, isSlash)\<close>, with the
  commitment index copied into 32 bytes, the settlement's block number and builder, and
  \<open>isSlash\<close> true exactly for the type \<open>slash\<close>.
\<close>

theorem settlementExecutor_oracle_call:
  assumes "Type settlement \<noteq> SettlementTypeReturn"
    and "settlerRegister_PendingTxnCount s = Inr pendingTxns"
    and "pendingTxns \<le> 128"
    and "getTransactOpts s = Inr opts"
  shows "take 4 (snd (processSettlement s settlement)) =
           [Lock_txMtx, Call_PendingTxnCount, Call_getTransactOpts,
            Call_ProcessBuilderCommitmentForBlockNumber opts
              (copy32 (CommitmentIdx settlement)) (sint (BlockNum settlement))
              (Builder settlement) (Type settlement = SettlementTypeSlash)]
         \<and> filter (\<lambda>args. args \<noteq> []) (map oracle_call_args (snd (processSettlement s settlement))) =
           [[Abi_bytes32 (copy32 (CommitmentIdx settlement)),
             Abi_uint256 (sint (BlockNum settlement)),
             Abi_string (Builder settlement),
             Abi_bool (Type settlement = SettlementTypeSlash)]]"
  using assms
  by (simp add: processSettlement_def settlementExecutor_body_def allowedPendingTxnCount_def
      Let_def split: sum.split option.split)

theorem settlementExecutor_oracle_call_witness:
  "filter (\<lambda>args. args \<noteq> [])
     (map oracle_call_args
        (snd (processSettlement (exampleSettler 5 3) (exampleSettlement SettlementTypeSlash)))) =
   [[Abi_bytes32 (copy32 [1, 2]), Abi_uint256 5, Abi_string ''0xabcd'', Abi_bool True]]"
  using settlementExecutor_oracle_call
    [of "exampleSettlement SettlementTypeSlash" "exampleSettler 5 3" 0
        "exampleAuth\<lparr>Nonce := Some 5, GasFeeCap := Some 9, GasTipCap := Some 2\<rparr>"]
    exampleSettler_opts
  by (simp add: exampleSettlement_def exampleSettler_def SettlementTypeSlash_def
      SettlementTypeReturn_def)

text \<open>
  C7. For every settlement of type RETURN that the channel delivers, the executor only
  takes the lock, logs a warning and releases the lock: no call of the Oracle contract,
  of \<open>SettlementInitiated\<close> or of \<open>PendingTxnCount\<close>; the closure returns no error, and
  the loop goes on with the rest of the stream without unsubscribing.
\<close>

theorem settlementExecutor_return_settlement:
  assumes "Type settlement = SettlementTypeReturn"
  shows "processSettlement s settlement =
           (None, [Lock_txMtx, LogWarn_return_settlement (CommitmentIdx settlement), Unlock_txMtx])
         \<and> settlementExecutor_loop (Recv settlement s # evs) tr =
             settlementExecutor_loop evs
               (tr @ [Lock_txMtx, LogWarn_return_settlement (CommitmentIdx settlement),
                      Unlock_txMtx])"
  using assms by (simp add: processSettlement_def settlementExecutor_body_def)

theorem settlementExecutor_return_settlement_witness:
  "Type (exampleSettlement SettlementTypeReturn) = SettlementTypeReturn
   \<and> settlementExecutor
       [Recv (exampleSettlement SettlementTypeReturn) (exampleSettler 5 3),
        CtxDone (ErrContext ''context canceled'')] =
     (Returned (ErrContext ''context canceled''),
      [Call_SubscribeSettlements, Lock_txMtx, LogWarn_return_settlement [1, 2], Unlock_txMtx,
       Unsubscribe])"
  using settlementExecutor_return_settlement
    [of "exampleSettlement SettlementTypeReturn" "exampleSettler 5 3"
        "[CtxDone (ErrContext ''context canceled'')]" "[Call_SubscribeSettlements]"]
  by (simp add: exampleSettlement_def settlementExecutor_def)

subsection \<open>The tasks and \<open>Start\<close>\<close>

lemma settlementExecutor_loop_Returned:
  "settlementExecutor_loop evs tr = (Returned e, tr') \<Longrightarrow> CtxDone e \<in> set evs"
proof (induction evs arbitrary: tr)
  case Nil
  then show ?case by simp
next
  case (Cons ev evs)
  show ?case
  proof (cases ev)
    case (CtxDone err)
    with Cons.prems show ?thesis by simp
  next
    case (Recv settlement s)
    with Cons show ?thesis
      by (auto split: prod.splits option.splits)
  next
    case ChanClosed
    with Cons show ?thesis by auto
  qed
qed

lemma returnExecutor_loop_Returned:
  "returnExecutor_loop evs tr = (Returned e, tr') \<Longrightarrow> CtxDone e \<in> set evs"
proof (induction evs arbitrary: tr)
  case Nil
  then show ?case by simp
next
  case (Cons ev evs)
  show ?case
  proof (cases ev)
    case (CtxDone err)
    with Cons.prems show ?thesis by simp
  next
    case (Recv returns s)
    with Cons show ?thesis
      by (auto split: prod.splits option.splits)
  next
    case ChanClosed
    with Cons show ?thesis by auto
  qed
qed

lemma settlementUpdater_loop_Returned:
  "settlementUpdater_loop ticks lastBlock tr = (Returned e, tr') \<Longrightarrow> TickCtxDone e \<in> set ticks"
proof (induction ticks arbitrary: lastBlock tr)
  case Nil
  then show ?case by simp
next
  case (Cons t ticks)
  show ?case
  proof (cases t)
    case (TickCtxDone err)
    with Cons.prems show ?thesis by simp
  next
    case (Tick s)
    with Cons show ?thesis
      by (auto split: sum.splits if_splits)
  qed
qed

lemma busy_processSettlement:
  "processSettlement busySettler (exampleSettlement SettlementTypeReward) =
     (Some ErrTooManyPendingTxns, [Lock_txMtx, Call_PendingTxnCount, Unlock_txMtx])"
  by (simp add: processSettlement_def settlementExecutor_body_def busySettler_def
      exampleSettler_def exampleSettlement_def allowedPendingTxnCount_def
      SettlementTypeReward_def SettlementTypeReturn_def)

lemma busy_processReturn:
  "processReturn busySettler \<lparr>BidIDs = [[1]]\<rparr> =
     (Some ErrTooManyPendingTxns, [Lock_txMtx, Call_PendingTxnCount, Unlock_txMtx])"
  by (simp add: processReturn_def returnExecutor_body_def busySettler_def
      exampleSettler_def allowedPendingTxnCount_def)

text \<open>
  C8, as the specification states it, fails: when the group has terminated with an
  error, \<open>Start\<close>'s waiting goroutine logs the error and closes the done channel. No
  task is started again.
\<close>

theorem Start_does_not_restart_counterexample:
  "Start (Some (ErrContext ''context canceled'')) =
     [Errgroup_Go Task_settlementUpdater, Errgroup_Go Task_settlementExecutor,
      Errgroup_Go Task_returnExecutor,
      LogError_settler_error (ErrContext ''context canceled''), Close_doneChan]
   \<and> \<not> list_ex is_Errgroup_Go
         (dropWhile (\<lambda>fx. fx \<noteq> LogError_settler_error (ErrContext ''context canceled''))
            (Start (Some (ErrContext ''context canceled''))))"
  by (simp add: Start_def)

text \<open>
  C8, amended. \<open>Start\<close> starts each of the three tasks once in an error group; when
  the group has terminated it logs the error, if any, and closes the done channel: the
  group is not restarted. The restart after a failure is inside the two executor tasks:
  on a failing settlement or return the task logs the error, unsubscribes, sleeps five
  seconds and subscribes again. None of the three tasks returns before its context is
  done, and then it returns the error of the context.
\<close>

theorem Start_does_not_restart:
  "filter is_Errgroup_Go (Start waited) =
     [Errgroup_Go Task_settlementUpdater, Errgroup_Go Task_settlementExecutor,
      Errgroup_Go Task_returnExecutor]
   \<and> last (Start waited) = Close_doneChan
   \<and> (processSettlement s settlement = (Some err, fx) \<longrightarrow>
        settlementExecutor_loop (Recv settlement s # evs) tr =
          settlementExecutor_loop evs
            (tr @ fx @ [LogError_failed_to_process err, Unsubscribe, Sleep_5_seconds,
                        Call_SubscribeSettlements]))
   \<and> (processReturn s returns = (Some err, fx) \<longrightarrow>
        returnExecutor_loop (Recv returns s # revs) rtr =
          returnExecutor_loop revs
            (rtr @ fx @ [LogError_failed_to_process err, Unsubscribe, Sleep_5_seconds,
                        Call_SubscribeReturns batchSize]))
   \<and> (fst (settlementExecutor_loop evs tr) = Returned e \<longrightarrow> CtxDone e \<in> set evs)
   \<and> (fst (returnExecutor_loop revs rtr) = Returned e \<longrightarrow> CtxDone e \<in> set revs)
   \<and> (fst (settlementUpdater_loop ticks lastBlock utr) = Returned e \<longrightarrow> TickCtxDone e \<in> set ticks)"
proof -
  have a: "filter is_Errgroup_Go (Start waited) =
     [Errgroup_Go Task_settlementUpdater, Errgroup_Go Task_settlementExecutor,
      Errgroup_Go Task_returnExecutor]"
    by (cases waited) (simp_all add: Start_def)
  have b: "last (Start waited) = Close_doneChan"
    by (simp add: Start_def)
  have c: "CtxDone e \<in> set evs" if "fst (settlementExecutor_loop evs tr) = Returned e"
    using that settlementExecutor_loop_Returned [of evs tr e "snd (settlementExecutor_loop evs tr)"]
    by (cases "settlementExecutor_loop evs tr") simp
  have d: "CtxDone e \<in> set revs" if "fst (returnExecutor_loop revs rtr) = Returned e"
    using that returnExecutor_loop_Returned [of revs rtr e "snd (returnExecutor_loop revs rtr)"]
    by (cases "returnExecutor_loop revs rtr") simp
  have f: "TickCtxDone e \<in> set ticks"
    if "fst (settlementUpdater_loop ticks lastBlock utr) = Returned e"
    using that settlementUpdater_loop_Returned
      [of ticks lastBlock utr e "snd (settlementUpdater_loop ticks lastBlock utr)"]
    by (cases "settlementUpdater_loop ticks lastBlock utr") simp
  show ?thesis using a b c d f by simp
qed

theorem Start_does_not_restart_witness:
  "processSettlement busySettler (exampleSettlement SettlementTypeReward) =
     (Some ErrTooManyPendingTxns, [Lock_txMtx, Call_PendingTxnCount, Unlock_txMtx])
   \<and> settlementExecutor
        [Recv (exampleSettlement SettlementTypeReward) busySettler,
         CtxDone (ErrContext ''context canceled'')] =
       (Returned (ErrContext ''context canceled''),
        [Call_SubscribeSettlements, Lock_txMtx, Call_PendingTxnCount, Unlock_txMtx,
         LogError_failed_to_process ErrTooManyPendingTxns, Unsubscribe, Sleep_5_seconds,
         Call_SubscribeSettlements, Unsubscribe])
   \<and> processReturn busySettler \<lparr>BidIDs = [[1]]\<rparr> =
     (Some ErrTooManyPendingTxns, [Lock_txMtx, Call_PendingTxnCount, Unlock_txMtx])
   \<and> returnExecutor
        [Recv \<lparr>BidIDs = [[1]]\<rparr> busySettler, CtxDone (ErrContext ''context canceled'')] =
       (Returned (ErrContext ''context canceled''),
        [Call_SubscribeReturns 10, Lock_txMtx, Call_PendingTxnCount, Unlock_txMtx,
         LogError_failed_to_process ErrTooManyPendingTxns, Unsubscribe, Sleep_5_seconds,
         Call_SubscribeReturns 10, Unsubscribe])
   \<and> settlementUpdater [TickCtxDone (ErrContext ''context canceled'')] =
       (Returned (ErrContext ''context canceled''), [])
   \<and> CtxDone (ErrContext ''context canceled'') \<in>
        set [CtxDone (ErrContext ''context canceled'') :: Settlement select]
   \<and> TickCtxDone (ErrContext ''context canceled'') \<in>
        set [TickCtxDone (ErrContext ''context canceled'')]"
  using Start_does_not_restart
    [of None busySettler "exampleSettlement SettlementTypeReward" ErrTooManyPendingTxns
        "[Lock_txMtx, Call_PendingTxnCount, Unlock_txMtx]"
        "[CtxDone (ErrContext ''context canceled'')]" "[Call_SubscribeSettlements]"
        "\<lparr>BidIDs = [[1]]\<rparr>" "[CtxDone (ErrContext ''context canceled'')]"
        "[Call_SubscribeReturns batchSize]"
        "ErrContext ''context canceled''" "[TickCtxDone (ErrContext ''context canceled'')]" 0 "[]"]
    busy_processSettlement busy_processReturn
  by (simp add: settlementExecutor_def returnExecutor_def settlementUpdater_def batchSize_def)

subsection \<open>The Updater: splitting and bundle matching\<close>

lemma split_commas_not_Nil: "split_commas s \<noteq> []"
  by (induction s) (auto split: list.splits)

lemma split_commas_append:
  "CHR '','' \<notin> set x \<Longrightarrow>
   split_commas (x @ r) = (x @ hd (split_commas r)) # tl (split_commas r)"
proof (induction x)
  case Nil
  then show ?case using split_commas_not_Nil [of r] by (cases "split_commas r") auto
next
  case (Cons c x)
  then show ?case by (auto split: list.splits)
qed

lemma split_commas_single: "CHR '','' \<notin> set x \<Longrightarrow> split_commas x = [x]"
  using split_commas_append [of x "[]"] by simp

lemma split_commas_join_commas:
  "xs \<noteq> [] \<Longrightarrow> \<forall>x\<in>set xs. CHR '','' \<notin> set x \<Longrightarrow> split_commas (join_commas xs) = xs"
proof (induction xs rule: join_commas.induct)
  case 1
  then show ?case by simp
next
  case (2 x)
  then show ?case by (simp add: split_commas_single)
next
  case (3 x y ys)
  then show ?case by (simp add: split_commas_append)
qed

lemma bundle_match_subseq: "bundle_match hs txs \<longleftrightarrow> subseq hs txs"
  by (induction hs txs rule: bundle_match.induct) (auto simp: subseq_Cons2_neq)


lemma bundle_match_drop: "bundle_match (drop i txs) txs"
  by (simp add: bundle_match_subseq suffix_drop suffix_imp_subseq)

lemma bundle_match_hd_mem: "bundle_match (h # hs) txs \<Longrightarrow> h \<in> set txs"
  by (induction txs) (auto split: if_splits)

lemma in_order_at_Nil: "in_order_at [] [] txs"
  by (simp add: in_order_at_def)

lemma in_order_at_shift:
  assumes "in_order_at idxs hs txs" shows "in_order_at (map Suc idxs) hs (t # txs)"
  using assms by (auto simp: in_order_at_def sorted_wrt_map)

lemma in_order_at_take:
  assumes "in_order_at idxs hs txs" shows "in_order_at (0 # map Suc idxs) (t # hs) (t # txs)"
proof -
  have "k < Suc (length hs) \<Longrightarrow>
        (0 # map Suc idxs) ! k < Suc (length txs) \<and> (t # txs) ! ((0 # map Suc idxs) ! k) = (t # hs) ! k" for k
    using assms by (cases k) (auto simp: in_order_at_def)
  then show ?thesis using assms by (auto simp: in_order_at_def sorted_wrt_map)
qed

lemma bundle_match_imp_in_order: "bundle_match hs txs \<Longrightarrow> \<exists>idxs. in_order_at idxs hs txs"
proof (induction hs txs rule: bundle_match.induct)
  case (1 txs)
  then show ?case using in_order_at_Nil by blast
next
  case (2 h hs)
  then show ?case by simp
next
  case (3 h hs t txs)
  show ?case
  proof (cases "t = h")
    case True
    with 3 obtain idxs where "in_order_at idxs hs txs" by auto
    then have "in_order_at (0 # map Suc idxs) (t # hs) (t # txs)" by (rule in_order_at_take)
    with True show ?thesis by blast
  next
    case False
    with 3 obtain idxs where "in_order_at idxs (h # hs) txs" by auto
    then have "in_order_at (map Suc idxs) (h # hs) (t # txs)" by (rule in_order_at_shift)
    then show ?thesis by blast
  qed
qed

lemma in_order_at_pred:
  assumes "in_order_at idxs hs (t # txs)" and "\<forall>i\<in>set idxs. 0 < i"
  shows "in_order_at (map (\<lambda>i. i - 1) idxs) hs txs"
proof -
  have len: "length idxs = length hs" using assms(1) by (simp add: in_order_at_def)
  have "sorted_wrt (<) (map (\<lambda>i. i - 1) idxs)"
    using assms by (auto simp: in_order_at_def sorted_wrt_map intro!: sorted_wrt_mono_rel [of idxs "(<)"])
  moreover have "map (\<lambda>i. i - 1) idxs ! k < length txs \<and> txs ! (map (\<lambda>i. i - 1) idxs ! k) = hs ! k"
    if "k < length hs" for k
  proof -
    have pos: "0 < idxs ! k" using assms(2) that len by simp
    have "idxs ! k < Suc (length txs)" "(t # txs) ! (idxs ! k) = hs ! k"
      using assms(1) that by (auto simp: in_order_at_def)
    with pos that len show ?thesis by (cases "idxs ! k") auto
  qed
  ultimately show ?thesis using len by (simp add: in_order_at_def)
qed

lemma in_order_imp_bundle_match: "in_order_at idxs hs txs \<Longrightarrow> bundle_match hs txs"
proof (induction hs txs arbitrary: idxs rule: bundle_match.induct)
  case (1 txs)
  then show ?case by simp
next
  case (2 h hs)
  then show ?case by (auto simp: in_order_at_def)
next
  case (3 h hs t txs)
  from "3.prems" obtain i rest where idxs: "idxs = i # rest"
    by (cases idxs) (auto simp: in_order_at_def)
  have rest_pos: "\<forall>j\<in>set rest. 0 < j"
    using "3.prems" idxs by (auto simp: in_order_at_def)
  have rest_order: "in_order_at rest hs (t # txs)"
  proof -
    have "rest ! k < length (t # txs) \<and> (t # txs) ! (rest ! k) = hs ! k" if "k < length hs" for k
      using "3.prems" idxs that by (auto simp: in_order_at_def dest: spec [of _ "Suc k"])
    then show ?thesis using "3.prems" idxs by (auto simp: in_order_at_def)
  qed
  show ?case
  proof (cases "t = h")
    case True
    have "in_order_at (map (\<lambda>i. i - 1) rest) hs txs"
      using rest_order rest_pos by (rule in_order_at_pred)
    with True 3 show ?thesis by auto
  next
    case False
    have "(t # txs) ! i = h" using "3.prems" idxs by (auto simp: in_order_at_def)
    with False have "0 < i" by (cases i) auto
    with rest_pos idxs have "\<forall>j\<in>set idxs. 0 < j" by simp
    with "3.prems" have "in_order_at (map (\<lambda>i. i - 1) idxs) (h # hs) txs"
      by (rule in_order_at_pred)
    with False 3 show ?thesis by auto
  qed
qed

subsection \<open>The Updater: the handler on the tests' doubles\<close>


lemma computeDecay_mid: "computeDecay startTimestamp endTimestamp midTimestamp = 50"
  by (simp add: computeDecay_def startTimestamp_def endTimestamp_def midTimestamp_def)

lemma computeDecay_zero: "computeDecay startTimestamp endTimestamp 0 = 100"
  by (simp add: computeDecay_def startTimestamp_def endTimestamp_def)

lemma test_commitment_Commiter: "Commiter (test_commitment idx a h i) = a"
  by (simp add: test_commitment_def)

lemma test_commitment_fields:
  "BlockNumber (test_commitment idx a h i) = 5"
  "TxnHash (test_commitment idx a h i) = h"
  "CommitmentIndex (test_commitment idx a h i) = getIdxBytes idx"
  "DecayStartTimeStamp (test_commitment idx a h i) = startTimestamp"
  "DecayEndTimeStamp (test_commitment idx a h i) = endTimestamp"
  "BlockCommitedAt (test_commitment idx a h i) = 0"
  by (simp_all add: test_commitment_def)

lemma l1Client_5:
  "l1Client txns 5 = Inr \<lparr>header_Time = 0, block_Transactions = txns\<rparr>"
  by (simp add: l1Client_def testEVMClient_BlockByNumber_def)

lemma l2Client_0:
  "l2Client txns 0 = Inr \<lparr>header_Time = midTimestamp, block_Transactions = txns\<rparr>"
  by (simp add: l2Client_def testEVMClient_BlockByNumber_def)

lemma SettlementType_neq:
  "SettlementTypeReward \<noteq> SettlementTypeSlash"
  "SettlementTypeReward \<noteq> SettlementTypeReturn"
  "SettlementTypeSlash \<noteq> SettlementTypeReturn"
  by (simp_all add: SettlementTypeReward_def SettlementTypeSlash_def SettlementTypeReturn_def)

lemma l2Client_other: "n \<noteq> 0 \<Longrightarrow> l2Client txns n = Inl (Err ''block not found'')"
  by (simp add: l2Client_def testEVMClient_BlockByNumber_def)

lemma block_ts_L1:
  "block_ts L1_block_number (l1Client txns) l2 (test_commitment idx a h i) = Inr 0"
  by (simp add: block_ts_def l1Client_5 test_commitment_fields)

lemma block_ts_L2:
  "block_ts (L2_block number) l1 (l2Client txns) c =
     (if number c = 0 then Inr midTimestamp else Inl (Err ''block not found''))"
  by (simp add: block_ts_def l2Client_0 l2Client_other)

lemma handleCommitment_tested_builder:
  "handleCommitment v testWinnerRegister (l1Client txns) (l2Client txns)
     (test_commitment idx builderAddr h i) =
   (case block_ts v (l1Client txns) (l2Client txns) (test_commitment idx builderAddr h i) of
      Inl err \<Rightarrow> Failed err
    | Inr ts \<Rightarrow>
        Settled (settlement_for (test_commitment idx builderAddr h i) (tested_type txns h)
                   (computeDecay startTimestamp endTimestamp ts) 1))"
  by (simp add: handleCommitment_def testWinnerRegister_def test_commitment_Commiter
      test_commitment_fields l1Client_5 tested_type_def Let_def split: sum.split)

lemma tested_handler_builder_L1:
  "tested_handler L1_block_number txns (test_commitment idx builderAddr h i) =
     [settlement_for (test_commitment idx builderAddr h i) (tested_type txns h) 100 1]"
  by (simp add: tested_handler_def handleCommitment_tested_builder block_ts_L1
      AddSettlement_calls_def computeDecay_zero)

lemma tested_handler_builder_L2:
  "tested_handler (L2_block number) txns (test_commitment idx builderAddr h i) =
     (if number (test_commitment idx builderAddr h i) = 0
      then [settlement_for (test_commitment idx builderAddr h i) (tested_type txns h) 50 1]
      else [])"
  by (simp add: tested_handler_def handleCommitment_tested_builder block_ts_L2
      AddSettlement_calls_def computeDecay_mid)













lemma Hex_not_commas: "CHR '','' \<notin> set t \<Longrightarrow> CHR '','' \<notin> set (Hex t)"
  by (simp add: Hex_def)

lemma tested_type_failure_bundle:
  assumes nc: "\<forall>t\<in>set txns. CHR '','' \<notin> set t" and l64: "\<forall>t\<in>set txns. length t = 64"
    and i: "i < length txns" and js: "\<forall>j\<in>set js. j < length txns"
  shows "tested_type txns (join_commas (Hex (txns ! i) # map (\<lambda>j. Hex (txns ! j)) js))
         = SettlementTypeSlash"
proof -
  let ?L = "Hex (txns ! i) # map (\<lambda>j. Hex (txns ! j)) js"
  have "\<forall>x\<in>set ?L. CHR '','' \<notin> set x"
    using nc i js by (auto intro!: Hex_not_commas)
  then have sp: "split_commas (join_commas ?L) = ?L"
    by (intro split_commas_join_commas) simp_all
  have "Hex (txns ! i) \<notin> set txns"
  proof
    assume "Hex (txns ! i) \<in> set txns"
    then have "length (Hex (txns ! i)) = 64" using l64 by blast
    moreover have "length (txns ! i) = 64" using l64 i by simp
    ultimately show False by (simp add: Hex_def)
  qed
  then have "\<not> bundle_match ?L txns" using bundle_match_hd_mem by blast
  then show ?thesis using sp by (simp add: tested_type_def)
qed

lemma TestUpdaterBundlesFailure_check_settlement_for:
  "TestUpdaterBundlesFailure_check (test_commitment idx a h i)
     (testWinnerRegister_AddSettlement (settlement_for (test_commitment idx a h i) t d w)) =
   (if t \<noteq> SettlementTypeSlash then Some ''wrong settlement type''
    else if d \<noteq> 0 then Some ''wrong decay percentage''
    else if w \<noteq> 1 then Some ''wrong window'' else None)"
  by (simp add: TestUpdaterBundlesFailure_check_def testWinnerRegister_AddSettlement_def
      settlement_for_def test_commitment_def)

lemma TestUpdaterBundlesFailure_computed_fatal:
  assumes len: "length txns = 10" and nc: "\<forall>t\<in>set txns. CHR '','' \<notin> set t"
    and l64: "\<forall>t\<in>set txns. length t = 64"
  shows "TestUpdaterBundlesFailure
           (tested_handler (L2_block (\<lambda>c. 0)) txns) txns
         = Test_fatal ''wrong decay percentage''
       \<and> TestUpdaterBundlesFailure
           (tested_handler L1_block_number txns) txns
         = Test_fatal ''wrong decay percentage''"
proof -
  have u: "[1..<10] = 1 # [2..<10]" by (simp add: upt_conv_Cons)
  have "\<exists>rest. TestUpdaterBundlesFailure_commitments txns =
     test_commitment 1 builderAddr
       (join_commas (Hex (txns ! 1) # map (\<lambda>j. Hex (txns ! j)) (rev [1..<Suc (10 - 1)]))) 1 # rest"
    unfolding TestUpdaterBundlesFailure_commitments_def u by (simp only: list.map) blast
  then obtain rest where cs: "TestUpdaterBundlesFailure_commitments txns =
     test_commitment 1 builderAddr
       (join_commas (Hex (txns ! 1) # map (\<lambda>j. Hex (txns ! j)) (rev [1..<Suc (10 - 1)]))) 1 # rest"
    by blast
  have ty: "tested_type txns (join_commas (Hex (txns ! 1) # map (\<lambda>j. Hex (txns ! j)) (rev [1..<Suc (10 - 1)])))
        = SettlementTypeSlash"
    using nc l64 len by (intro tested_type_failure_bundle) auto
  show ?thesis
    using ty
    by (simp add: TestUpdaterBundlesFailure_def cs tested_handler_builder_L1
        tested_handler_builder_L2 TestUpdaterBundlesFailure_check_settlement_for)
qed

lemma example_txns_facts:
  "length example_txns = 10"
  "\<forall>t\<in>set example_txns. CHR '','' \<notin> set t"
  "\<forall>t\<in>set example_txns. length t = 64"
  by (simp_all add: example_txns_def)










lemma computeDecay_bounds: "0 \<le> computeDecay s e t \<and> computeDecay s e t \<le> 100"
proof -
  have "100 * (e - t) div (e - s) \<le> 100" if "s < t" "t < e"
  proof -
    have "e - t \<le> e - s" using that by simp
    then have "100 * (e - t) \<le> 100 * (e - s)" by simp
    then have "100 * (e - t) div (e - s) \<le> 100 * (e - s) div (e - s)" by (rule div_le_mono)
    also have "\<dots> = 100" using that by simp
    finally show ?thesis .
  qed
  then show ?thesis by (auto simp: computeDecay_def not_le)
qed

lemma computeDecay_midpoint:
  assumes "s < e" and "2 * t = s + e" shows "computeDecay s e t = 50"
proof -
  have st: "s < t" "t < e" using assms by linarith+
  have "e - s = 2 * (e - t)" using assms st by linarith
  moreover have "0 < e - t" using st by simp
  ultimately have "100 * (e - t) div (e - s) = 50" by simp
  then show ?thesis using st by (simp add: computeDecay_def)
qed


lemma handleCommitment_own_index:
  "handleCommitment v reg l1 l2 c = Settled a \<Longrightarrow> add_commitmentIdx a = CommitmentIndex c"
  by (auto simp: handleCommitment_def settlement_for_def Let_def
      split: sum.splits bool.splits if_splits)

lemma scenario_l1_5:
  "scenario_l1 5 = Inr \<lparr>header_Time = midTimestamp,
        block_Transactions = [''h1'', ''h3'', ''h4'', ''h5'', ''h6'', ''h7'']\<rparr>"
  by (simp add: scenario_l1_def testEVMClient_BlockByNumber_def)

lemma scenario_block_ts:
  "block_ts spec_variant scenario_l1 l2 (test_commitment idx a h i) = Inr midTimestamp"
  by (simp add: block_ts_def spec_variant_def scenario_l1_5 test_commitment_fields)

lemma startTimestamp_lt_end: "startTimestamp < endTimestamp"
  by (simp add: endTimestamp_def)

lemma midTimestamp_midpoint: "2 * midTimestamp = startTimestamp + endTimestamp"
  by (simp add: midTimestamp_def endTimestamp_def)

lemma scenario_reward:
  "handleCommitment spec_variant testWinnerRegister scenario_l1 l2
     (test_commitment 0 builderAddr ''h3,h5,h7'' 0) =
   Settled (settlement_for (test_commitment 0 builderAddr ''h3,h5,h7'' 0) SettlementTypeReward 50 1)"
  by (simp add: handleCommitment_def testWinnerRegister_def test_commitment_Commiter
      test_commitment_fields scenario_l1_5 scenario_block_ts computeDecay_mid
      SettlementType_neq)

lemma scenario_slash:
  "handleCommitment spec_variant testWinnerRegister scenario_l1 l2
     (test_commitment 0 builderAddr ''h7,h3'' 0) =
   Settled (settlement_for (test_commitment 0 builderAddr ''h7,h3'' 0) SettlementTypeSlash 50 1)"
  by (simp add: handleCommitment_def testWinnerRegister_def test_commitment_Commiter
      test_commitment_fields scenario_l1_5 scenario_block_ts computeDecay_mid
      SettlementType_neq)




subsection \<open>The Updater: the claims\<close>

text \<open>
  C3. For every commitment whose committer is the registered winner (not settled yet,
  and whose L1 block and block timestamp can be read), with the claimed hashes the
  comma-separated parts of its \<open>txn_hash\<close> field: the handler adds a settlement, of type
  REWARD exactly when the claimed hashes stand in the L1 block's transaction list at
  strictly increasing indices in the claimed order, and of type SLASH exactly when they do
  not. This holds for every source of the block timestamp.
\<close>

theorem handleCommitment_bundle_type:
  assumes "IsSettled reg (CommitmentIndex c) = Inr False"
    and "GetWinner reg (BlockNumber c) = Inr winner"
    and "Commiter c = winner_Winner winner"
    and "l1 (BlockNumber c) = Inr blk"
    and "block_ts v l1 l2 c = Inr ts"
  shows "\<exists>a. handleCommitment v reg l1 l2 c = Settled a
     \<and> (add_settlementType a = SettlementTypeReward \<longleftrightarrow>
          (\<exists>idxs. in_order_at idxs (split_commas (TxnHash c)) (block_Transactions blk)))
     \<and> (add_settlementType a = SettlementTypeSlash \<longleftrightarrow>
          \<not> (\<exists>idxs. in_order_at idxs (split_commas (TxnHash c)) (block_Transactions blk)))"
proof -
  have m: "bundle_match (split_commas (TxnHash c)) (block_Transactions blk) \<longleftrightarrow>
        (\<exists>idxs. in_order_at idxs (split_commas (TxnHash c)) (block_Transactions blk))"
    using bundle_match_imp_in_order in_order_imp_bundle_match by blast
  show ?thesis
    using assms SettlementType_neq
    by (simp add: handleCommitment_def Let_def settlement_for_def m [symmetric])
qed

theorem handleCommitment_bundle_type_witness:
  "handleCommitment spec_variant testWinnerRegister scenario_l1 (l2Client [])
     (test_commitment 0 builderAddr ''h3,h5,h7'' 0) =
   Settled (settlement_for (test_commitment 0 builderAddr ''h3,h5,h7'' 0) SettlementTypeReward 50 1)
   \<and> (\<exists>idxs. in_order_at idxs [''h3'', ''h5'', ''h7''] [''h1'', ''h3'', ''h4'', ''h5'', ''h6'', ''h7''])
   \<and> handleCommitment spec_variant testWinnerRegister scenario_l1 (l2Client [])
     (test_commitment 0 builderAddr ''h7,h3'' 0) =
   Settled (settlement_for (test_commitment 0 builderAddr ''h7,h3'' 0) SettlementTypeSlash 50 1)
   \<and> \<not> (\<exists>idxs. in_order_at idxs [''h7'', ''h3''] [''h1'', ''h3'', ''h4'', ''h5'', ''h6'', ''h7''])"
proof -
  have s: "IsSettled testWinnerRegister x = Inr False" for x
    by (simp add: testWinnerRegister_def)
  have w: "GetWinner testWinnerRegister n = Inr \<lparr>winner_Winner = builderAddr, winner_Window = 1\<rparr>" for n
    by (simp add: testWinnerRegister_def)
  have c: "Commiter (test_commitment 0 builderAddr h 0) =
        winner_Winner \<lparr>winner_Winner = builderAddr, winner_Window = 1\<rparr>" for h
    by (simp add: test_commitment_Commiter)
  have b: "scenario_l1 (BlockNumber (test_commitment 0 builderAddr h 0)) =
        Inr \<lparr>header_Time = midTimestamp,
             block_Transactions = [''h1'', ''h3'', ''h4'', ''h5'', ''h6'', ''h7'']\<rparr>" for h
    by (simp add: test_commitment_fields scenario_l1_5)
  note r = handleCommitment_bundle_type
    [of testWinnerRegister "test_commitment 0 builderAddr ''h3,h5,h7'' 0"
        "\<lparr>winner_Winner = builderAddr, winner_Window = 1\<rparr>" scenario_l1
        "\<lparr>header_Time = midTimestamp,
         block_Transactions = [''h1'', ''h3'', ''h4'', ''h5'', ''h6'', ''h7'']\<rparr>"
        spec_variant "l2Client []" midTimestamp,
     OF s w c b scenario_block_ts]
  note l = handleCommitment_bundle_type
    [of testWinnerRegister "test_commitment 0 builderAddr ''h7,h3'' 0"
        "\<lparr>winner_Winner = builderAddr, winner_Window = 1\<rparr>" scenario_l1
        "\<lparr>header_Time = midTimestamp,
         block_Transactions = [''h1'', ''h3'', ''h4'', ''h5'', ''h6'', ''h7'']\<rparr>"
        spec_variant "l2Client []" midTimestamp,
     OF s w c b scenario_block_ts]
  show ?thesis
    using r l SettlementType_neq
    by (simp add: scenario_reward scenario_slash settlement_for_def test_commitment_fields)
qed




text \<open>
  C5, as the specification states it, fails on the repository's test: the commitments of
  \<open>TestUpdaterBundlesFailure\<close> have \<open>decay_start < decay_end\<close> and are settled as
  slashes; the formula gives them 50 (block timestamp at the midpoint) or 100 (block
  timestamp 0), and a handler that stores either does not pass the test, which requires
  the decay 0.
\<close>

theorem handleCommitment_reward_decay_counterexample:
  "startTimestamp < endTimestamp
   \<and> computeDecay startTimestamp endTimestamp midTimestamp = 50
   \<and> computeDecay startTimestamp endTimestamp 0 = 100
   \<and> TestUpdaterBundlesFailure (tested_handler (L2_block (\<lambda>c. 0)) example_txns) example_txns
      = Test_fatal ''wrong decay percentage''
   \<and> TestUpdaterBundlesFailure (tested_handler L1_block_number example_txns) example_txns
      = Test_fatal ''wrong decay percentage''"
  using TestUpdaterBundlesFailure_computed_fatal [OF example_txns_facts]
  by (simp add: computeDecay_mid computeDecay_zero startTimestamp_lt_end)

text \<open>
  C5, amended. For every commitment that the handler settles as a REWARD, with
  \<open>decay_start < decay_end\<close>, the decay percentage is 100 if
  \<open>block_ts \<le> decay_start\<close>, 0 if \<open>block_ts \<ge> decay_end\<close>, and
  \<open>100 * (decay_end - block_ts) / (decay_end - decay_start)\<close> rounded down otherwise; it
  lies in \<open>[0, 100]\<close> and is 50 at the exact midpoint. The decay of a SLASH settlement
  is left open.
\<close>

theorem handleCommitment_reward_decay:
  assumes "handleCommitment v reg l1 l2 c = Settled a"
    and "add_settlementType a = SettlementTypeReward"
    and "block_ts v l1 l2 c = Inr ts"
    and "DecayStartTimeStamp c < DecayEndTimeStamp c"
  shows "add_decayPercentage a =
           (if ts \<le> DecayStartTimeStamp c then 100
            else if ts \<ge> DecayEndTimeStamp c then 0
            else int (100 * (DecayEndTimeStamp c - ts) div (DecayEndTimeStamp c - DecayStartTimeStamp c)))
       \<and> 0 \<le> add_decayPercentage a \<and> add_decayPercentage a \<le> 100
       \<and> (2 * ts = DecayStartTimeStamp c + DecayEndTimeStamp c \<longrightarrow> add_decayPercentage a = 50)"
proof -
  have d: "add_decayPercentage a = computeDecay (DecayStartTimeStamp c) (DecayEndTimeStamp c) ts"
    using assms(1,2,3) SettlementType_neq
    by (auto simp: handleCommitment_def settlement_for_def Let_def
        split: sum.splits bool.splits if_splits)
  show ?thesis
    using d computeDecay_bounds [of "DecayStartTimeStamp c" "DecayEndTimeStamp c" ts]
      computeDecay_midpoint [OF assms(4), of ts]
    by (simp add: computeDecay_def)
qed

theorem handleCommitment_reward_decay_witness:
  "handleCommitment spec_variant testWinnerRegister scenario_l1 (l2Client [])
     (test_commitment 0 builderAddr ''h3,h5,h7'' 0) =
   Settled (settlement_for (test_commitment 0 builderAddr ''h3,h5,h7'' 0) SettlementTypeReward 50 1)
   \<and> startTimestamp < endTimestamp
   \<and> 2 * midTimestamp = startTimestamp + endTimestamp
   \<and> add_decayPercentage
        (settlement_for (test_commitment 0 builderAddr ''h3,h5,h7'' 0) SettlementTypeReward 50 1) = 50"
proof -
  have lt: "DecayStartTimeStamp (test_commitment 0 builderAddr ''h3,h5,h7'' 0)
      < DecayEndTimeStamp (test_commitment 0 builderAddr ''h3,h5,h7'' 0)"
    by (simp add: test_commitment_fields startTimestamp_lt_end)
  have ty: "add_settlementType
      (settlement_for (test_commitment 0 builderAddr ''h3,h5,h7'' 0) SettlementTypeReward 50 1)
      = SettlementTypeReward"
    by (simp add: settlement_for_def)
  note d = handleCommitment_reward_decay
    [of spec_variant testWinnerRegister scenario_l1 "l2Client []"
        "test_commitment 0 builderAddr ''h3,h5,h7'' 0"
        "settlement_for (test_commitment 0 builderAddr ''h3,h5,h7'' 0) SettlementTypeReward 50 1"
        midTimestamp,
     OF scenario_reward ty scenario_block_ts lt]
  show ?thesis
    using d startTimestamp_lt_end midTimestamp_midpoint
    by (simp add: scenario_reward test_commitment_fields settlement_for_def)
qed




end
